theory Spec2Isabelle
  imports Complex_Main "HOL-Library.Sublist"
begin

section \<open>Data model (types.ts)\<close>

text \<open>
  A JavaScript \<^verbatim>\<open>number\<close> is a double, kept as the \<^typ>\<open>real\<close> it denotes;
  \<^verbatim>\<open>Date.now()\<close> is an integer number of
  milliseconds and is passed to every operation as an \<^typ>\<open>int\<close>, the one value that
  all the clock reads of that operation are taken to return. An optional field
  (\<^verbatim>\<open>timeOn?: number\<close>) is an \<^typ>\<open>'a option\<close>, \<^verbatim>\<open>undefined\<close> being \<^const>\<open>None\<close>.
  The string-literal unions are datatypes. Field names carry the record's name as a
  prefix, since \<^verbatim>\<open>id\<close> and \<^verbatim>\<open>name\<close> occur in several interfaces.
\<close>

datatype CameraType = SIMULATED | WEBCAM | STATIC

datatype NvrStatus = ONLINE | OFFLINE | AUTH_FAILURE

datatype ThreatLevel = LOW | MEDIUM | HIGH | CRITICAL

datatype Severity = Sev_INFO | Sev_WARNING | Sev_CRITICAL

record NvrDevice =
  nvr_id :: string
  nvr_name :: string
  nvr_ip :: string
  nvr_port :: string
  nvr_username :: string
  nvr_password :: "string option"
  nvr_protocol :: string
  nvr_status :: NvrStatus
  nvr_addedAt :: real

record AnalysisResult =
  ar_timestamp :: string
  ar_summary :: string
  ar_personCount :: real
  ar_threatLevel :: ThreatLevel
  ar_detectedObjects :: "string list"
  ar_anomalies :: "string list"

record Camera =
  cam_id :: string
  cam_name :: string
  cam_location :: string
  cam_nvrId :: string
  cam_type :: CameraType
  cam_sourceUrl :: "string option"
  cam_isOnline :: bool
  cam_isRecording :: bool
  cam_statusChangedAt :: real
  cam_lastAnalysis :: "AnalysisResult option"
  cam_lastUpdate :: real

record FaultRecord =
  flt_id :: string
  flt_cameraId :: string
  flt_cameraName :: string
  flt_location :: string
  flt_nvrId :: string
  flt_timeOff :: real
  flt_timeOn :: "real option"
  flt_acknowledged :: bool

record Alert =
  al_id :: string
  al_cameraId :: string
  al_cameraName :: string
  al_timestamp :: real
  al_message :: string
  al_severity :: Severity
  al_thumbnail :: "string option"

datatype UserRole = ADMIN | OPERATOR | VIEWER

datatype UserStatus = ACTIVE | SUSPENDED

record User =
  usr_id :: string
  usr_name :: string
  usr_email :: string
  usr_role :: UserRole
  usr_lastActive :: real
  usr_status :: UserStatus

section \<open>Arithmetic on doubles\<close>

text \<open>
  \<open>toDouble x\<close> is the double nearest to the real \<open>x\<close>, a tie going to the even
  significand: the value of a decimal literal \<open>x\<close> of the source, and the result of
  an arithmetic operation on doubles whose exact result is \<open>x\<close>. The exponent of \<open>x\<close>
  is searched from 1023 down to -1022, below which the doubles are equally spaced;
  \<open>x\<close> is below the overflow threshold wherever the model rounds. Sums of integer
  timestamps are exact and are not rounded.
\<close>

definition roundHalfEven :: "real \<Rightarrow> int" where
  "roundHalfEven q =
     (let f = \<lfloor>q\<rfloor>; d = q - of_int f
      in if d < 1/2 then f else if d > 1/2 then f + 1 else if even f then f else f + 1)"

fun exponentFrom :: "nat \<Rightarrow> int \<Rightarrow> real \<Rightarrow> int" where
  "exponentFrom 0 e x = e"
| "exponentFrom (Suc k) e x = (if power_int 2 e \<le> x then e else exponentFrom k (e - 1) x)"

definition ulp :: "real \<Rightarrow> real" where
  "ulp x = power_int 2 (exponentFrom 2045 1023 \<bar>x\<bar> - 52)"

definition toDouble :: "real \<Rightarrow> real" where
  "toDouble x = ulp x * of_int (roundHalfEven (x / ulp x))"

section \<open>Application state (App.tsx)\<close>

text \<open>
  The React state of \<^verbatim>\<open>App\<close> that the operations below read and write. Every
  handler runs to completion between two renders, so the \<^verbatim>\<open>cameras\<close> and \<^verbatim>\<open>nvrs\<close> a
  handler closes over are the ones its functional updaters receive as \<^verbatim>\<open>prev\<close>; the
  model therefore has one state, passed in and returned. Queued functional updates are
  applied in the order in which the source queues them. Toasts are presentation state
  and are left out.
\<close>

record AppState =
  cameras :: "Camera list"
  nvrs :: "NvrDevice list"
  users :: "User list"
  faults :: "FaultRecord list"
  alerts :: "Alert list"
  liveCameraIds :: "string list"

text \<open>The sentinel camera id of infrastructure-wide alerts.\<close>

definition SYSTEM :: string where
  "SYSTEM = ''SYSTEM''"

subsection \<open>handleReconnect\<close>

definition reconnectCamera :: "string \<Rightarrow> int \<Rightarrow> Camera \<Rightarrow> Camera" where
  "reconnectCamera cameraId now c =
     (if cam_id c = cameraId
      then c\<lparr>cam_isOnline := True, cam_isRecording := True, cam_statusChangedAt := of_int now\<rparr>
      else c)"

definition closeFault :: "string \<Rightarrow> int \<Rightarrow> FaultRecord \<Rightarrow> FaultRecord" where
  "closeFault cameraId now f =
     (if flt_cameraId f = cameraId \<and> flt_timeOn f = None
      then f\<lparr>flt_timeOn := Some (of_int now)\<rparr>
      else f)"

definition handleReconnect :: "string \<Rightarrow> int \<Rightarrow> AppState \<Rightarrow> AppState" where
  "handleReconnect cameraId now s =
     s\<lparr>cameras := map (reconnectCamera cameraId now) (cameras s),
       faults := map (closeFault cameraId now) (faults s),
       alerts := filter (\<lambda>a. al_cameraId a \<noteq> cameraId) (alerts s)\<rparr>"

subsection \<open>The simulation tick\<close>

text \<open>
  The loosely typed transition record \<^verbatim>\<open>{type, camera?, nvrId?, message?}\<close> of the
  source, with its optional fields.
\<close>

datatype ChangeType = REPAIR | FAILURE | NVR_FAILURE

record Change =
  ch_type :: ChangeType
  ch_camera :: "Camera option"
  ch_nvrId :: "string option"
  ch_message :: "string option"

text \<open>
  \<^verbatim>\<open>Array.from(new Set(xs))\<close> keeps the first occurrence of every element, in order.
\<close>

definition uniq :: "'a list \<Rightarrow> 'a list" where
  "uniq xs = rev (remdups (rev xs))"

text \<open>Reading an array at an index: \<^verbatim>\<open>undefined\<close> outside the array.\<close>

definition at_index :: "'a list \<Rightarrow> int \<Rightarrow> 'a option" where
  "at_index xs i = (if 0 \<le> i \<and> i < int (length xs) then Some (xs ! nat i) else None)"

text \<open>
  The randomness of one tick is the sequence of the results of its \<^verbatim>\<open>Math.random()\<close>
  calls for rolls, \<open>rnd 0\<close>, \<open>rnd 1\<close>, ... in call order, and the sequence \<open>gid 0\<close>,
  \<open>gid 1\<close>, ... of the results of its \<^verbatim>\<open>generateId()\<close> calls for persisted records.

  The NVR-wide failure roll: \<open>rnd 0\<close> is the roll against 0.002 and \<open>rnd 1\<close> picks the
  target, through the floor of the product as the source computes it, in doubles. The result is the target NVR when the failure happens, that is when the
  roll succeeds and the target's cameras are not all offline already.
\<close>

definition nvrFailureTarget :: "(nat \<Rightarrow> real) \<Rightarrow> Camera list \<Rightarrow> string option" where
  "nvrFailureTarget rnd prevCameras =
     (if rnd 0 < toDouble 0.002 then
        (let nvrIds = uniq (map cam_nvrId prevCameras);
             targetNvr = at_index nvrIds \<lfloor>toDouble (rnd 1 * real (length nvrIds))\<rfloor>;
             nvrCameras = filter (\<lambda>c. Some (cam_nvrId c) = targetNvr) prevCameras;
             isAlreadyDown = list_all (\<lambda>c. \<not> cam_isOnline c) nvrCameras
         in if \<not> isAlreadyDown then targetNvr else None)
      else None)"

definition failCamera :: "int \<Rightarrow> Camera \<Rightarrow> Camera" where
  "failCamera now c =
     c\<lparr>cam_isOnline := False, cam_isRecording := False, cam_statusChangedAt := of_int now\<rparr>"

definition repairCamera :: "int \<Rightarrow> Camera \<Rightarrow> Camera" where
  "repairCamera now c =
     c\<lparr>cam_isOnline := True, cam_isRecording := True, cam_statusChangedAt := of_int now\<rparr>"

definition setNvrStatus :: "string \<Rightarrow> NvrStatus \<Rightarrow> NvrDevice list \<Rightarrow> NvrDevice list" where
  "setNvrStatus nvrId st current =
     map (\<lambda>n. if nvr_id n = nvrId then n\<lparr>nvr_status := st\<rparr> else n) current"

text \<open>The change records pushed by the per-camera roll.\<close>

definition repairEvent :: "Camera \<Rightarrow> Change" where
  "repairEvent updatedCam =
     \<lparr>ch_type = REPAIR, ch_camera = Some updatedCam, ch_nvrId = None, ch_message = None\<rparr>"

definition failureEvent :: "Camera \<Rightarrow> Change" where
  "failureEvent updatedCam =
     \<lparr>ch_type = FAILURE, ch_camera = Some updatedCam, ch_nvrId = None, ch_message = None\<rparr>"

definition nvrFailureEvent :: "string \<Rightarrow> Change" where
  "nvrFailureEvent targetNvr =
     \<lparr>ch_type = NVR_FAILURE, ch_camera = None, ch_nvrId = Some targetNvr,
      ch_message = Some (''NVR Network Unreachable: '' @ targetNvr)\<rparr>"

text \<open>
  The per-camera roll of one camera, reading its draws from index \<open>i\<close> on. The result is
  the camera after the roll, the change pushed (if any), the NVR whose status an
  \<^verbatim>\<open>updateNvrs\<close> call sets to ONLINE (if any), and the index of the next unread draw.
  \<open>nvrList\<close> is the NVR list the tick closes over (the \<^verbatim>\<open>nvrs\<close> of the render).
\<close>

definition rollCamera ::
  "int \<Rightarrow> (nat \<Rightarrow> real) \<Rightarrow> NvrDevice list \<Rightarrow> nat \<Rightarrow> Camera
     \<Rightarrow> Camera \<times> Change option \<times> string option \<times> nat" where
  "rollCamera now rnd nvrList i cam =
     (let roll = rnd i in
      if \<not> cam_isOnline cam \<and> roll < toDouble 0.20 then
        (let parentNvr = find (\<lambda>n. nvr_id n = cam_nvrId cam) nvrList;
             updatedCam = repairCamera now cam
         in if map_option nvr_status parentNvr = Some OFFLINE then
              (if rnd (i + 1) > toDouble 0.5 then (cam, None, None, i + 2)
               else (updatedCam, Some (repairEvent updatedCam), Some (cam_nvrId cam), i + 2))
            else (updatedCam, Some (repairEvent updatedCam), None, i + 1))
      else if cam_isOnline cam \<and> roll < toDouble 0.005 then
        (let updatedCam = failCamera now cam
         in (updatedCam, Some (failureEvent updatedCam), None, i + 1))
      else (cam, None, None, i + 1))"

text \<open>
  \<^verbatim>\<open>prevCameras.map(cam => ...)\<close>: the cameras after their rolls, the changes pushed
  and the NVRs repaired, each in the order of the cameras.
\<close>

fun rollCameras ::
  "int \<Rightarrow> (nat \<Rightarrow> real) \<Rightarrow> NvrDevice list \<Rightarrow> nat \<Rightarrow> Camera list
     \<Rightarrow> Camera list \<times> Change list \<times> string list" where
  "rollCameras now rnd nvrList i [] = ([], [], [])"
| "rollCameras now rnd nvrList i (cam # rest) =
     (case rollCamera now rnd nvrList i cam of
        (cam', change, repaired, i') \<Rightarrow>
          (case rollCameras now rnd nvrList i' rest of
             (cams', changes, repairs) \<Rightarrow>
               (cam' # cams',
                (case change of None \<Rightarrow> changes | Some ch \<Rightarrow> ch # changes),
                (case repaired of None \<Rightarrow> repairs | Some n \<Rightarrow> n # repairs))))"

text \<open>The fault ledger update of a tick (\<^verbatim>\<open>updateFaults(prevFaults => ...)\<close>).\<close>

definition newFault :: "string \<Rightarrow> Camera \<Rightarrow> int \<Rightarrow> FaultRecord" where
  "newFault fid cam now =
     \<lparr>flt_id = fid, flt_cameraId = cam_id cam, flt_cameraName = cam_name cam,
      flt_location = cam_location cam, flt_nvrId = cam_nvrId cam,
      flt_timeOff = of_int now, flt_timeOn = None, flt_acknowledged = False\<rparr>"

definition hasOpenFault :: "FaultRecord list \<Rightarrow> string \<Rightarrow> bool" where
  "hasOpenFault fs cameraId = list_ex (\<lambda>f. flt_cameraId f = cameraId \<and> flt_timeOn f = None) fs"

text \<open>
  The state of the ledger loops is the number of identifiers drawn so far and the
  array \<^verbatim>\<open>nextFaults\<close>.
\<close>

definition openFaultUnlessOpen ::
  "int \<Rightarrow> (nat \<Rightarrow> string) \<Rightarrow> Camera \<Rightarrow> nat \<times> FaultRecord list \<Rightarrow> nat \<times> FaultRecord list" where
  "openFaultUnlessOpen now gid cam st =
     (case st of (k, nextFaults) \<Rightarrow>
        if \<not> hasOpenFault nextFaults (cam_id cam)
        then (Suc k, nextFaults @ [newFault (gid k) cam now])
        else (k, nextFaults))"

definition faultsOfNvrFailure ::
  "int \<Rightarrow> (nat \<Rightarrow> string) \<Rightarrow> Camera list \<Rightarrow> Change \<Rightarrow> nat \<times> FaultRecord list
     \<Rightarrow> nat \<times> FaultRecord list" where
  "faultsOfNvrFailure now gid prevCameras change st =
     (let relevantCams = filter (\<lambda>c. Some (cam_nvrId c) = ch_nvrId change) prevCameras
      in fold (openFaultUnlessOpen now gid) relevantCams st)"

definition faultsOfChange ::
  "int \<Rightarrow> (nat \<Rightarrow> string) \<Rightarrow> Change \<Rightarrow> nat \<times> FaultRecord list \<Rightarrow> nat \<times> FaultRecord list" where
  "faultsOfChange now gid change st =
     (case st of (k, nextFaults) \<Rightarrow>
        (case ch_camera change of
           None \<Rightarrow> (k, nextFaults)
         | Some camera \<Rightarrow>
             if ch_type change = REPAIR
             then (k, map (closeFault (cam_id camera) now) nextFaults)
             else if ch_type change = FAILURE
             then (Suc k, nextFaults @ [newFault (gid k) camera now])
             else (k, nextFaults)))"

definition syncFaultsFrom ::
  "int \<Rightarrow> (nat \<Rightarrow> string) \<Rightarrow> Camera list \<Rightarrow> Change list \<Rightarrow> nat \<times> FaultRecord list
     \<Rightarrow> nat \<times> FaultRecord list" where
  "syncFaultsFrom now gid prevCameras changes st =
     fold (faultsOfChange now gid) changes
       (fold (faultsOfNvrFailure now gid prevCameras)
          (filter (\<lambda>c. ch_type c = NVR_FAILURE) changes) st)"

definition syncFaults ::
  "int \<Rightarrow> (nat \<Rightarrow> string) \<Rightarrow> Camera list \<Rightarrow> Change list \<Rightarrow> FaultRecord list \<Rightarrow> FaultRecord list" where
  "syncFaults now gid prevCameras changes prevFaults =
     snd (syncFaultsFrom now gid prevCameras changes (0, prevFaults))"

text \<open>
  The alert update of a tick (\<^verbatim>\<open>updateAlerts(prevAlerts => ...)\<close>). \<open>x || d\<close> on an
  optional string takes \<open>d\<close> when \<open>x\<close> is \<^verbatim>\<open>undefined\<close> or empty.
\<close>

definition orDefault :: "string option \<Rightarrow> string \<Rightarrow> string" where
  "orDefault x d = (case x of None \<Rightarrow> d | Some v \<Rightarrow> if v = [] then d else v)"

definition alertOfNvrFailure ::
  "int \<Rightarrow> (nat \<Rightarrow> string) \<Rightarrow> Change \<Rightarrow> nat \<times> Alert list \<Rightarrow> nat \<times> Alert list" where
  "alertOfNvrFailure now gid c st =
     (case st of (k, newAlerts) \<Rightarrow>
        (Suc k,
         newAlerts @
           [\<lparr>al_id = gid k, al_cameraId = SYSTEM,
             al_cameraName = orDefault (ch_nvrId c) ''System'',
             al_timestamp = of_int now,
             al_message = orDefault (ch_message c) ''Network Failure'',
             al_severity = Sev_CRITICAL, al_thumbnail = None\<rparr>]))"

definition alertOfFailure ::
  "int \<Rightarrow> (nat \<Rightarrow> string) \<Rightarrow> Change \<Rightarrow> nat \<times> Alert list \<Rightarrow> nat \<times> Alert list" where
  "alertOfFailure now gid c st =
     (case st of (k, newAlerts) \<Rightarrow>
        (case ch_camera c of
           None \<Rightarrow> (k, newAlerts)
         | Some camera \<Rightarrow>
             (Suc k,
              newAlerts @
                [\<lparr>al_id = gid k, al_cameraId = cam_id camera,
                  al_cameraName = cam_name camera,
                  al_timestamp = of_int now,
                  al_message = ''Connection lost with '' @ cam_nvrId camera @ ''. Signal unavailable.'',
                  al_severity = Sev_WARNING, al_thumbnail = None\<rparr>])))"

definition syncAlerts ::
  "int \<Rightarrow> (nat \<Rightarrow> string) \<Rightarrow> nat \<Rightarrow> Change list \<Rightarrow> Alert list \<Rightarrow> Alert list" where
  "syncAlerts now gid k changes prevAlerts =
     snd (fold (alertOfFailure now gid)
            (filter (\<lambda>c. ch_type c = FAILURE \<and> ch_camera c \<noteq> None) changes)
            (fold (alertOfNvrFailure now gid)
               (filter (\<lambda>c. ch_type c = NVR_FAILURE) changes) (k, [])))
     @ prevAlerts"

text \<open>
  One tick: the body of the \<^verbatim>\<open>setInterval\<close> callback. The result is the array
  \<^verbatim>\<open>changes\<close> as it stands when the camera updater returns, and the state after the
  tick. \<^verbatim>\<open>updatesOccurred\<close> is set exactly where a change is pushed, so it is
  \<open>changes \<noteq> []\<close>. The \<^verbatim>\<open>updateNvrs\<close> calls made during the per-camera roll are
  queued whether or not the updater then returns \<^verbatim>\<open>prevCameras\<close>. In the NVR failure
  branch the updater returns the mapped cameras at once: the NVR update queued before
  the \<^verbatim>\<open>return\<close> takes effect, and neither the per-camera roll nor the code after it
  is reached.
\<close>

definition tickResult ::
  "int \<Rightarrow> (nat \<Rightarrow> real) \<Rightarrow> (nat \<Rightarrow> string) \<Rightarrow> AppState \<Rightarrow> Change list \<times> AppState" where
  "tickResult now rnd gid s =
     (let prevCameras = cameras s in
      case nvrFailureTarget rnd prevCameras of
        Some targetNvr \<Rightarrow>
          ([nvrFailureEvent targetNvr],
           s\<lparr>cameras := map (\<lambda>c. if cam_nvrId c = targetNvr then failCamera now c else c)
                           prevCameras,
             nvrs := setNvrStatus targetNvr OFFLINE (nvrs s)\<rparr>)
      | None \<Rightarrow>
          (case rollCameras now rnd (nvrs s) (if rnd 0 < toDouble 0.002 then 2 else 1)
                  prevCameras of
             (nextCameras, changes, repairs) \<Rightarrow>
               if changes \<noteq> [] then
                 (case syncFaultsFrom now gid prevCameras changes (0, faults s) of
                    (k, nextFaults) \<Rightarrow>
                      (changes,
                       s\<lparr>cameras := nextCameras,
                         nvrs := fold (\<lambda>n. setNvrStatus n ONLINE) repairs (nvrs s),
                         faults := nextFaults,
                         alerts := syncAlerts now gid k changes (alerts s)\<rparr>))
               else (changes, s\<lparr>nvrs := fold (\<lambda>n. setNvrStatus n ONLINE) repairs (nvrs s)\<rparr>)))"

definition tickChanges :: "int \<Rightarrow> (nat \<Rightarrow> real) \<Rightarrow> (nat \<Rightarrow> string) \<Rightarrow> AppState \<Rightarrow> Change list" where
  "tickChanges now rnd gid s = fst (tickResult now rnd gid s)"

definition tick :: "int \<Rightarrow> (nat \<Rightarrow> real) \<Rightarrow> (nat \<Rightarrow> string) \<Rightarrow> AppState \<Rightarrow> AppState" where
  "tick now rnd gid s = snd (tickResult now rnd gid s)"

subsection \<open>handleAnalysisResult\<close>

fun threatLevelName :: "ThreatLevel \<Rightarrow> string" where
  "threatLevelName LOW = ''LOW''"
| "threatLevelName MEDIUM = ''MEDIUM''"
| "threatLevelName HIGH = ''HIGH''"
| "threatLevelName CRITICAL = ''CRITICAL''"

text \<open>\<^verbatim>\<open>xs.join(sep)\<close>.\<close>

fun join :: "string \<Rightarrow> string list \<Rightarrow> string" where
  "join sep [] = []"
| "join sep [x] = x"
| "join sep (x # y # ys) = x @ sep @ join sep (y # ys)"

definition analysisAlert :: "string \<Rightarrow> AnalysisResult \<Rightarrow> string \<Rightarrow> int \<Rightarrow> string \<Rightarrow> Camera list \<Rightarrow> Alert" where
  "analysisAlert cameraId result frame now newId cams =
     \<lparr>al_id = newId, al_cameraId = cameraId,
      al_cameraName = orDefault (map_option cam_name (find (\<lambda>c. cam_id c = cameraId) cams)) ''Unknown'',
      al_timestamp = of_int now,
      al_message = threatLevelName (ar_threatLevel result) @ '': ''
                     @ orDefault (Some (join '', '' (ar_anomalies result))) ''Suspicious activity'',
      al_severity = (if ar_threatLevel result = CRITICAL then Sev_CRITICAL else Sev_WARNING),
      al_thumbnail = Some frame\<rparr>"

definition handleAnalysisResult ::
  "string \<Rightarrow> AnalysisResult \<Rightarrow> string \<Rightarrow> int \<Rightarrow> string \<Rightarrow> AppState \<Rightarrow> AppState" where
  "handleAnalysisResult cameraId result frame now newId s =
     (let s1 = s\<lparr>cameras :=
                   map (\<lambda>cam. if cam_id cam = cameraId
                              then cam\<lparr>cam_lastAnalysis := Some result, cam_lastUpdate := of_int now\<rparr>
                              else cam) (cameras s)\<rparr>
      in if ar_threatLevel result \<in> {HIGH, CRITICAL} \<or> length (ar_anomalies result) > 0
         then s1\<lparr>alerts := analysisAlert cameraId result frame now newId (cameras s) # alerts s\<rparr>
         else s1)"

section \<open>Frame analysis (geminiService.ts)\<close>

text \<open>
  \<^verbatim>\<open>analyzeFrame\<close> reads the API key that \<^verbatim>\<open>getApiKey()\<close> found in the environment
  (\<^verbatim>\<open>undefined\<close> is \<^const>\<open>None\<close>; \<^verbatim>\<open>!apiKey\<close> holds for \<^verbatim>\<open>undefined\<close> and for the empty
  string) and the clock as an ISO string. What the \<^verbatim>\<open>try\<close> block does with the remote
  service is an input of the model: it returns an object, or something is thrown
  and the \<^verbatim>\<open>catch\<close> block computes the error message given here.
\<close>

datatype ServiceOutcome = Returned AnalysisResult | Threw string

text \<open>\<^verbatim>\<open>s.includes(sub)\<close>.\<close>

fun includes_str :: "string \<Rightarrow> string \<Rightarrow> bool" where
  "includes_str [] sub = (sub = [])"
| "includes_str (c # cs) sub = (prefix sub (c # cs) \<or> includes_str cs sub)"

definition fallbackResult :: "string \<Rightarrow> string \<Rightarrow> string \<Rightarrow> AnalysisResult" where
  "fallbackResult nowIso summary anomaly =
     \<lparr>ar_timestamp = nowIso, ar_summary = summary, ar_personCount = 0,
      ar_threatLevel = LOW, ar_detectedObjects = [], ar_anomalies = [anomaly]\<rparr>"

definition analyzeFrame :: "string option \<Rightarrow> string \<Rightarrow> ServiceOutcome \<Rightarrow> AnalysisResult" where
  "analyzeFrame apiKey nowIso outcome =
     (if apiKey = None \<or> apiKey = Some [] then
        fallbackResult nowIso ''API Key Missing. Please check your .env file.'' ''Configuration Error''
      else
        (case outcome of
           Returned r \<Rightarrow> r
         | Threw errorMessage \<Rightarrow>
             if includes_str errorMessage ''429'' \<or> includes_str errorMessage ''RESOURCE_EXHAUSTED''
                \<or> includes_str errorMessage ''quota''
             then fallbackResult nowIso ''Service busy (Quota). Retrying...'' ''Rate Limit Reached''
             else fallbackResult nowIso ''Analysis failed due to API error.'' ''System Error''))"

section \<open>NVR management (App.tsx)\<close>

subsection \<open>executeDeleteNvr\<close>

text \<open>
  \<^verbatim>\<open>deleteNvrId\<close> is the state variable set by \<^verbatim>\<open>promptDeleteNvr\<close>; \<^verbatim>\<open>!deleteNvrId\<close>
  holds for \<^verbatim>\<open>null\<close> and for the empty string.
\<close>

definition cameraIdsOfNvr :: "string \<Rightarrow> Camera list \<Rightarrow> string list" where
  "cameraIdsOfNvr nvrId cams = map cam_id (filter (\<lambda>c. cam_nvrId c = nvrId) cams)"

definition executeDeleteNvr :: "string option \<Rightarrow> int \<Rightarrow> string \<Rightarrow> AppState \<Rightarrow> AppState" where
  "executeDeleteNvr deleteNvrId now newId s =
     (case deleteNvrId of
        None \<Rightarrow> s
      | Some nvrId \<Rightarrow>
          if nvrId = [] then s
          else
            (let camerasToRemove = cameraIdsOfNvr nvrId (cameras s)
             in s\<lparr>nvrs := filter (\<lambda>n. nvr_id n \<noteq> nvrId) (nvrs s),
                  cameras := filter (\<lambda>c. cam_nvrId c \<noteq> nvrId) (cameras s),
                  liveCameraIds := filter (\<lambda>i. i \<notin> set camerasToRemove) (liveCameraIds s),
                  alerts :=
                    \<lparr>al_id = newId, al_cameraId = SYSTEM, al_cameraName = ''System'',
                     al_timestamp = of_int now,
                     al_message = ''NVR Deleted: '' @ nvrId @ ''. All associated devices removed.'',
                     al_severity = Sev_INFO, al_thumbnail = None\<rparr> # alerts s\<rparr>))"

subsection \<open>handleSaveNvr\<close>

record NvrForm =
  form_name :: string
  form_ip :: string
  form_port :: string
  form_username :: string
  form_password :: string
  form_protocol :: string

fun nvrStatusName :: "NvrStatus \<Rightarrow> string" where
  "nvrStatusName ONLINE = ''ONLINE''"
| "nvrStatusName OFFLINE = ''OFFLINE''"
| "nvrStatusName AUTH_FAILURE = ''AUTH_FAILURE''"

text \<open>Decimal rendering of a non-negative integer (\<^verbatim>\<open>n.toString()\<close>).\<close>

definition digitChar :: "nat \<Rightarrow> char" where
  "digitChar d = ''0123456789'' ! d"

function showNat :: "nat \<Rightarrow> string" where
  "showNat n = (if n < 10 then [digitChar n] else showNat (n div 10) @ [digitChar (n mod 10)])"
  by pat_completeness auto
termination
  by (relation "measure (\<lambda>n. n)") auto

declare showNat.simps [simp del]

definition showInt :: "int \<Rightarrow> string" where
  "showInt i = (if i < 0 then CHR ''-'' # showNat (nat (- i)) else showNat (nat i))"

text \<open>\<^verbatim>\<open>s.padStart(n, c)\<close> for a one-character pad, and \<^verbatim>\<open>s.split('.').pop()\<close>.\<close>

definition padStart :: "nat \<Rightarrow> char \<Rightarrow> string \<Rightarrow> string" where
  "padStart n c s = replicate (n - length s) c @ s"

definition lastSegment :: "string \<Rightarrow> string" where
  "lastSegment s = rev (takeWhile (\<lambda>c. c \<noteq> CHR ''.'') (rev s))"

definition systemAlert :: "string \<Rightarrow> int \<Rightarrow> string \<Rightarrow> Severity \<Rightarrow> Alert" where
  "systemAlert newId now msg sev =
     \<lparr>al_id = newId, al_cameraId = SYSTEM, al_cameraName = ''System'',
      al_timestamp = of_int now, al_message = msg, al_severity = sev, al_thumbnail = None\<rparr>"

text \<open>The edit branch of the \<^verbatim>\<open>setTimeout\<close> callback.\<close>

definition updateExistingNvr ::
  "NvrForm \<Rightarrow> string \<Rightarrow> bool \<Rightarrow> NvrStatus \<Rightarrow> int \<Rightarrow> (nat \<Rightarrow> string) \<Rightarrow> AppState \<Rightarrow> AppState" where
  "updateExistingNvr nvrForm isEditingNvr isSuccess initialStatus now gid s =
     s\<lparr>nvrs :=
         map (\<lambda>n. if nvr_id n = isEditingNvr
                  then n\<lparr>nvr_name := (if form_name nvrForm = [] then nvr_name n else form_name nvrForm),
                         nvr_ip := form_ip nvrForm,
                         nvr_port := form_port nvrForm,
                         nvr_username := form_username nvrForm,
                         nvr_password := Some (form_password nvrForm),
                         nvr_protocol := form_protocol nvrForm,
                         nvr_status := initialStatus\<rparr>
                  else n) (nvrs s),
       cameras :=
         (if \<not> isSuccess
          then map (\<lambda>c. if cam_nvrId c = isEditingNvr then c\<lparr>cam_isOnline := False\<rparr> else c) (cameras s)
          else map (\<lambda>c. if cam_nvrId c = isEditingNvr then c\<lparr>cam_isOnline := True\<rparr> else c) (cameras s)),
       alerts :=
         systemAlert (gid 0) now
           (''NVR Configuration Updated: '' @ isEditingNvr @ ''. Status: '' @ nvrStatusName initialStatus)
           (if isSuccess then Sev_INFO else Sev_WARNING) # alerts s\<rparr>"

text \<open>
  The add branch. \<open>gid 0\<close>, ..., \<open>gid 7\<close> name the eight cameras, the next identifiers
  the fault records (when the device is unreachable or rejects the credentials) and
  the alert. \<open>rnd 1\<close> is the draw that replaces an empty last segment of the address.
\<close>

definition newNvrCamera :: "NvrForm \<Rightarrow> string \<Rightarrow> bool \<Rightarrow> int \<Rightarrow> (nat \<Rightarrow> string) \<Rightarrow> nat \<Rightarrow> Camera" where
  "newNvrCamera nvrForm newNvrId isSuccess now gid i =
     \<lparr>cam_id = ''cam-'' @ gid (i - 1),
      cam_name = ''CAM-'' @ padStart 2 CHR ''0'' (showNat i),
      cam_location = (if form_name nvrForm = [] then ''External IP '' @ form_ip nvrForm
                      else form_name nvrForm),
      cam_nvrId = newNvrId,
      cam_type = SIMULATED,
      cam_sourceUrl = Some (''https://picsum.photos/800/600?random='' @ showInt (now + int i)),
      cam_isOnline = isSuccess,
      cam_isRecording = isSuccess,
      cam_statusChangedAt = of_int now,
      cam_lastAnalysis = None,
      cam_lastUpdate = of_int now\<rparr>"

definition addNewNvr ::
  "NvrForm \<Rightarrow> bool \<Rightarrow> NvrStatus \<Rightarrow> int \<Rightarrow> (nat \<Rightarrow> real) \<Rightarrow> (nat \<Rightarrow> string) \<Rightarrow> AppState \<Rightarrow> AppState" where
  "addNewNvr nvrForm isSuccess initialStatus now rnd gid s =
     (let ipSegment = (if lastSegment (form_ip nvrForm) = []
                       then showNat (nat \<lfloor>toDouble (rnd 1 * 100)\<rfloor>)
                       else lastSegment (form_ip nvrForm));
          newNvrId = ''NVR-'' @ padStart 3 CHR ''0'' ipSegment;
          newNvr = \<lparr>nvr_id = newNvrId,
                    nvr_name = (if form_name nvrForm = [] then ''New NVR '' @ newNvrId
                                else form_name nvrForm),
                    nvr_ip = form_ip nvrForm,
                    nvr_port = form_port nvrForm,
                    nvr_username = form_username nvrForm,
                    nvr_password = Some (form_password nvrForm),
                    nvr_protocol = form_protocol nvrForm,
                    nvr_status = initialStatus,
                    nvr_addedAt = of_int now\<rparr>;
          newCameras = map (newNvrCamera nvrForm newNvrId isSuccess now gid) [1 ..< 9]
      in s\<lparr>nvrs := nvrs s @ [newNvr],
           cameras := cameras s @ newCameras,
           faults :=
             (if \<not> isSuccess
              then faults s @ map (\<lambda>(k, cam). newFault (gid k) cam now) (zip [8 ..< 16] newCameras)
              else faults s),
           alerts :=
             systemAlert (gid (if isSuccess then 8 else 16)) now
               (if isSuccess then ''NVR Added: '' @ newNvrId
                else ''NVR Added with Error: '' @ newNvrId)
               (if isSuccess then Sev_INFO else Sev_CRITICAL) # alerts s\<rparr>)"

text \<open>
  \<^verbatim>\<open>handleSaveNvr\<close> with its delayed callback. \<open>rnd 0\<close> is the draw that decides whether
  the network is reachable. \<^verbatim>\<open>isEditingNvr\<close> is the id of the NVR being edited, or
  \<^verbatim>\<open>null\<close>; the empty string is falsy as well.
\<close>

definition handleSaveNvr ::
  "NvrForm \<Rightarrow> string option \<Rightarrow> int \<Rightarrow> (nat \<Rightarrow> real) \<Rightarrow> (nat \<Rightarrow> string) \<Rightarrow> AppState \<Rightarrow> AppState" where
  "handleSaveNvr nvrForm isEditingNvr now rnd gid s =
     (if form_ip nvrForm = [] \<or> form_username nvrForm = [] \<or> form_password nvrForm = [] then s
      else
        (let isValidAuth = (form_username nvrForm = ''admin'' \<and> form_password nvrForm = ''12345'');
             isNetworkReachable = (rnd 0 > toDouble 0.1);
             isSuccess = (isValidAuth \<and> isNetworkReachable);
             initialStatus = (if isSuccess then ONLINE
                              else if \<not> isNetworkReachable then OFFLINE else AUTH_FAILURE)
         in case isEditingNvr of
              None \<Rightarrow> addNewNvr nvrForm isSuccess initialStatus now rnd gid s
            | Some editedId \<Rightarrow>
                if editedId \<noteq> []
                then updateExistingNvr nvrForm editedId isSuccess initialStatus now gid s
                else addNewNvr nvrForm isSuccess initialStatus now rnd gid s))"

subsection \<open>Sequences of operations\<close>

datatype Operation =
    Tick int "nat \<Rightarrow> real" "nat \<Rightarrow> string"
  | Reconnect string int
  | SaveNvr NvrForm "string option" int "nat \<Rightarrow> real" "nat \<Rightarrow> string"
  | DeleteNvr "string option" int string

fun applyOperation :: "Operation \<Rightarrow> AppState \<Rightarrow> AppState" where
  "applyOperation (Tick now rnd gid) s = tick now rnd gid s"
| "applyOperation (Reconnect cameraId now) s = handleReconnect cameraId now s"
| "applyOperation (SaveNvr nvrForm isEditingNvr now rnd gid) s =
     handleSaveNvr nvrForm isEditingNvr now rnd gid s"
| "applyOperation (DeleteNvr deleteNvrId now newId) s = executeDeleteNvr deleteNvrId now newId s"

definition run :: "Operation list \<Rightarrow> AppState \<Rightarrow> AppState" where
  "run ops s = fold applyOperation ops s"

section \<open>Persisted snapshot (databaseService.ts)\<close>

text \<open>
  The values that \<^verbatim>\<open>JSON.parse\<close> yields: null, booleans, numbers, strings, arrays and
  plain objects. A number is a finite double or, for a literal beyond the range of
  the doubles such as \<^verbatim>\<open>1e400\<close>, an infinity; \<^verbatim>\<open>-0\<close> is identified with \<^verbatim>\<open>0\<close>, as
  \<^verbatim>\<open>===\<close> does. An object is the list of its properties, each name once; reading a
  property is \<^const>\<open>map_of\<close>.
\<close>

datatype number = Finite real | PosInfinity | NegInfinity

datatype json =
    JNull
  | JBool bool
  | JNum number
  | JStr string
  | JArr "json list"
  | JObj "(string \<times> json) list"

text \<open>
  A string held in \<^verbatim>\<open>localStorage\<close> or in a backup file is represented by what
  \<^verbatim>\<open>JSON.parse\<close> makes of it: the empty string, a JSON text (given by the value it
  parses to), or a string that \<^verbatim>\<open>JSON.parse\<close> rejects.
\<close>

datatype jsonText = EmptyText | Text json | Malformed

text \<open>
  \<^verbatim>\<open>JSON.stringify(v)\<close> prints an infinite number as \<^verbatim>\<open>null\<close> and everything else as
  it is, so the string it returns parses to \<open>printed v\<close>.
\<close>

fun printed :: "json \<Rightarrow> json" where
  "printed JNull = JNull"
| "printed (JBool b) = JBool b"
| "printed (JNum (Finite x)) = JNum (Finite x)"
| "printed (JNum PosInfinity) = JNull"
| "printed (JNum NegInfinity) = JNull"
| "printed (JStr s) = JStr s"
| "printed (JArr xs) = JArr (map printed xs)"
| "printed (JObj props) = JObj (map (\<lambda>(name, v). (name, printed v)) props)"

definition stringify :: "json \<Rightarrow> jsonText" where
  "stringify v = Text (printed v)"

type_synonym storage = "string \<rightharpoonup> jsonText"

definition KEY_CAMERAS :: string where "KEY_CAMERAS = ''sentinel_cameras''"
definition KEY_NVRS :: string where "KEY_NVRS = ''sentinel_nvrs''"
definition KEY_USERS :: string where "KEY_USERS = ''sentinel_users''"
definition KEY_ALERTS :: string where "KEY_ALERTS = ''sentinel_alerts''"
definition KEY_FAULTS :: string where "KEY_FAULTS = ''sentinel_faults''"
definition KEY_INIT :: string where "KEY_INIT = ''sentinel_initialized''"

text \<open>
  \<^verbatim>\<open>JSON.parse(localStorage.getItem(key) || '[]')\<close>: a missing item and the empty string
  read as the empty array; a malformed item makes \<^verbatim>\<open>JSON.parse\<close> throw (\<^const>\<open>None\<close>).
\<close>

definition readItem :: "storage \<Rightarrow> string \<Rightarrow> json option" where
  "readItem st key =
     (case st key of
        None \<Rightarrow> Some (JArr [])
      | Some EmptyText \<Rightarrow> Some (JArr [])
      | Some (Text v) \<Rightarrow> Some v
      | Some Malformed \<Rightarrow> None)"

record Snapshot =
  snap_cameras :: json
  snap_nvrs :: json
  snap_users :: json
  snap_alerts :: json
  snap_faults :: json

definition getData :: "storage \<Rightarrow> Snapshot option" where
  "getData st =
     (case readItem st KEY_CAMERAS of None \<Rightarrow> None | Some c \<Rightarrow>
     (case readItem st KEY_NVRS of None \<Rightarrow> None | Some n \<Rightarrow>
     (case readItem st KEY_USERS of None \<Rightarrow> None | Some u \<Rightarrow>
     (case readItem st KEY_ALERTS of None \<Rightarrow> None | Some a \<Rightarrow>
     (case readItem st KEY_FAULTS of None \<Rightarrow> None | Some f \<Rightarrow>
        Some \<lparr>snap_cameras = c, snap_nvrs = n, snap_users = u, snap_alerts = a,
              snap_faults = f\<rparr>)))))"

text \<open>\<^verbatim>\<open>createBackup\<close>: the backup string, or \<^const>\<open>None\<close> when \<^verbatim>\<open>JSON.parse\<close> throws.\<close>

definition createBackup :: "int \<Rightarrow> storage \<Rightarrow> jsonText option" where
  "createBackup now st =
     (case readItem st KEY_CAMERAS of None \<Rightarrow> None | Some c \<Rightarrow>
     (case readItem st KEY_NVRS of None \<Rightarrow> None | Some n \<Rightarrow>
     (case readItem st KEY_USERS of None \<Rightarrow> None | Some u \<Rightarrow>
     (case readItem st KEY_ALERTS of None \<Rightarrow> None | Some a \<Rightarrow>
     (case readItem st KEY_FAULTS of None \<Rightarrow> None | Some f \<Rightarrow>
        Some (stringify
                (JObj [(''cameras'', c), (''nvrs'', n), (''users'', u), (''alerts'', a),
                       (''faults'', f), (''timestamp'', JNum (Finite (of_int now))),
                       (''version'', JStr ''1.0'')])))))))"

text \<open>
  Reading a property of a parsed value other than \<^verbatim>\<open>null\<close>: \<^verbatim>\<open>undefined\<close>
  (\<^const>\<open>None\<close>) when an object lacks it, and on a primitive or an array for the names
  used here.
\<close>

fun property :: "json \<Rightarrow> string \<Rightarrow> json option" where
  "property (JObj props) name = map_of props name"
| "property v name = None"

fun truthy :: "json \<Rightarrow> bool" where
  "truthy JNull = False"
| "truthy (JBool b) = b"
| "truthy (JNum x) = (x \<noteq> Finite 0)"
| "truthy (JStr s) = (s \<noteq> [])"
| "truthy (JArr xs) = True"
| "truthy (JObj props) = True"

fun isArray :: "json \<Rightarrow> bool" where
  "isArray (JArr xs) = True"
| "isArray v = False"

text \<open>\<^verbatim>\<open>data.users || []\<close>.\<close>

definition orEmptyArray :: "json option \<Rightarrow> json" where
  "orEmptyArray x = (case x of None \<Rightarrow> JArr [] | Some v \<Rightarrow> if truthy v then v else JArr [])"

text \<open>
  The validation \<^verbatim>\<open>!x || !Array.isArray(x)\<close> of a property, and the array that
  passes it.
\<close>

definition arrayProperty :: "json \<Rightarrow> string \<Rightarrow> json list option" where
  "arrayProperty data name =
     (case property data name of
        None \<Rightarrow> None
      | Some v \<Rightarrow>
          if \<not> truthy v \<or> \<not> isArray v then None
          else (case v of JArr xs \<Rightarrow> Some xs | _ \<Rightarrow> None))"

text \<open>
  \<^verbatim>\<open>restoreBackup\<close>: whether the restore succeeded, and the storage afterwards. Every
  exception of the \<^verbatim>\<open>try\<close> block (\<^verbatim>\<open>JSON.parse\<close> rejecting the string, reading a
  property of \<^verbatim>\<open>null\<close>, a failed validation) ends in \<^verbatim>\<open>return false\<close>, with the
  storage untouched since the checks precede the first write. The storage is taken
  to have room for the writes.
\<close>

definition restoreBackup :: "jsonText \<Rightarrow> storage \<Rightarrow> bool \<times> storage" where
  "restoreBackup jsonString st =
     (case jsonString of
        EmptyText \<Rightarrow> (False, st)
      | Malformed \<Rightarrow> (False, st)
      | Text data \<Rightarrow>
          if data = JNull then (False, st)
          else
            (case arrayProperty data ''cameras'' of
               None \<Rightarrow> (False, st)
             | Some cs \<Rightarrow>
                 (case arrayProperty data ''nvrs'' of
                    None \<Rightarrow> (False, st)
                  | Some ns \<Rightarrow>
                      (True,
                       st(KEY_CAMERAS \<mapsto> stringify (JArr cs),
                          KEY_NVRS \<mapsto> stringify (JArr ns),
                          KEY_USERS \<mapsto> stringify (orEmptyArray (property data ''users'')),
                          KEY_ALERTS \<mapsto> stringify (orEmptyArray (property data ''alerts'')),
                          KEY_FAULTS \<mapsto> stringify (orEmptyArray (property data ''faults'')),
                          KEY_INIT \<mapsto> Text (JBool True))))))"

text \<open>
  The write operations \<^verbatim>\<open>saveCameras\<close>, ..., \<^verbatim>\<open>saveFaults\<close>: the array, given as the
  value that \<^verbatim>\<open>JSON.stringify\<close> sees, is printed into its item.
\<close>

definition saveCameras :: "json list \<Rightarrow> storage \<Rightarrow> storage" where
  "saveCameras cams st = st(KEY_CAMERAS \<mapsto> stringify (JArr cams))"

definition saveNvrs :: "json list \<Rightarrow> storage \<Rightarrow> storage" where
  "saveNvrs ns st = st(KEY_NVRS \<mapsto> stringify (JArr ns))"

definition saveUsers :: "json list \<Rightarrow> storage \<Rightarrow> storage" where
  "saveUsers us st = st(KEY_USERS \<mapsto> stringify (JArr us))"

definition saveAlerts :: "json list \<Rightarrow> storage \<Rightarrow> storage" where
  "saveAlerts als st = st(KEY_ALERTS \<mapsto> stringify (JArr als))"

definition saveFaults :: "json list \<Rightarrow> storage \<Rightarrow> storage" where
  "saveFaults fs st = st(KEY_FAULTS \<mapsto> stringify (JArr fs))"

section \<open>Example states and inputs\<close>

definition exCamera :: "string \<Rightarrow> string \<Rightarrow> string \<Rightarrow> bool \<Rightarrow> Camera" where
  "exCamera cid cname nid online =
     \<lparr>cam_id = cid, cam_name = cname, cam_location = ''Main Building Zone 1'',
      cam_nvrId = nid, cam_type = SIMULATED, cam_sourceUrl = None,
      cam_isOnline = online, cam_isRecording = online, cam_statusChangedAt = 1000,
      cam_lastAnalysis = None, cam_lastUpdate = 1000\<rparr>"

definition exNvr :: "string \<Rightarrow> NvrStatus \<Rightarrow> NvrDevice" where
  "exNvr nid st =
     \<lparr>nvr_id = nid, nvr_name = ''Main Building Core'', nvr_ip = ''192.168.1.50'',
      nvr_port = ''8000'', nvr_username = ''admin'', nvr_password = Some ''password123'',
      nvr_protocol = ''ONVIF'', nvr_status = st, nvr_addedAt = 0\<rparr>"

definition exFault :: "string \<Rightarrow> string \<Rightarrow> string \<Rightarrow> real \<Rightarrow> real option \<Rightarrow> FaultRecord" where
  "exFault fid cid nid timeOff timeOn =
     \<lparr>flt_id = fid, flt_cameraId = cid, flt_cameraName = ''WH-CAM-01'',
      flt_location = ''Warehouse Zone 1'', flt_nvrId = nid,
      flt_timeOff = timeOff, flt_timeOn = timeOn, flt_acknowledged = False\<rparr>"

definition exAlert :: "string \<Rightarrow> string \<Rightarrow> Alert" where
  "exAlert aid cid =
     \<lparr>al_id = aid, al_cameraId = cid, al_cameraName = ''WH-CAM-01'', al_timestamp = 500,
      al_message = ''Connection lost with NVR-02. Signal unavailable.'',
      al_severity = Sev_WARNING, al_thumbnail = None\<rparr>"

text \<open>
  NVR-01 with three cameras, all online and recording; NVR-02 with one camera that is
  offline and has one open fault, opened at time 500. Two alerts name that camera, one
  names a camera of NVR-01 and one is a system alert.
\<close>

definition exState :: AppState where
  "exState =
     \<lparr>cameras = [exCamera ''cam-0001'' ''MB-CAM-01'' ''NVR-01'' True,
                 exCamera ''cam-0002'' ''MB-CAM-02'' ''NVR-01'' True,
                 exCamera ''cam-0003'' ''MB-CAM-03'' ''NVR-01'' True,
                 exCamera ''cam-0004'' ''WH-CAM-01'' ''NVR-02'' False],
      nvrs = [exNvr ''NVR-01'' ONLINE, exNvr ''NVR-02'' ONLINE],
      users = [],
      faults = [exFault ''f1'' ''cam-0004'' ''NVR-02'' 500 None],
      alerts = [exAlert ''a1'' ''cam-0004'', exAlert ''a2'' ''cam-0001'',
                exAlert ''a3'' SYSTEM, exAlert ''a4'' ''cam-0004''],
      liveCameraIds = [''cam-0001'', ''cam-0004'']\<rparr>"

text \<open>The open fault records of a camera.\<close>

definition openFaultsOf :: "string \<Rightarrow> FaultRecord list \<Rightarrow> FaultRecord list" where
  "openFaultsOf cameraId fs = filter (\<lambda>f. flt_cameraId f = cameraId \<and> flt_timeOn f = None) fs"

text \<open>
  Identifiers \<open>id0\<close>, \<open>id1\<close>, ...; draws that are all the same number; draws that
  start with a given list and go on with a given number.
\<close>

definition exGid :: "nat \<Rightarrow> string" where
  "exGid k = ''id'' @ showNat k"

definition constDraws :: "real \<Rightarrow> nat \<Rightarrow> real" where
  "constDraws x k = x"

definition listedDraws :: "real list \<Rightarrow> real \<Rightarrow> nat \<Rightarrow> real" where
  "listedDraws xs x k = (if k < length xs then xs ! k else x)"

text \<open>An NVR form with the credentials the simulation accepts, and one with a wrong password.\<close>

definition exForm :: "string \<Rightarrow> NvrForm" where
  "exForm password =
     \<lparr>form_name = ''Main Building Core'', form_ip = ''192.168.1.50'', form_port = ''8000'',
      form_username = ''admin'', form_password = password, form_protocol = ''ONVIF''\<rparr>"

definition exGidFrom :: "nat \<Rightarrow> nat \<Rightarrow> string" where
  "exGidFrom n k = exGid (n + k)"

text \<open>
  A tick in which the first camera (online) fails and nothing else happens; then a
  successful edit of NVR-01; then the same tick again.
\<close>

definition exTrace :: "Operation list" where
  "exTrace =
     [Tick 2000 (listedDraws [0.5, 0.001] 0.9) exGid,
      SaveNvr (exForm ''12345'') (Some ''NVR-01'') 3000 (constDraws 0.5) (exGidFrom 10),
      Tick 4000 (listedDraws [0.5, 0.001] 0.9) (exGidFrom 20)]"

text \<open>The invariant that a recording camera is online.\<close>

definition recordingImpliesOnline :: "Camera list \<Rightarrow> bool" where
  "recordingImpliesOnline cams = list_all (\<lambda>c. cam_isRecording c \<longrightarrow> cam_isOnline c) cams"

text \<open>
  A save of the NVR form that takes the edit branch and fails: the form is complete,
  an NVR is being edited, and the credentials are wrong or the network draw says
  unreachable.
\<close>

definition editFails :: "NvrForm \<Rightarrow> string option \<Rightarrow> (nat \<Rightarrow> real) \<Rightarrow> bool" where
  "editFails nvrForm isEditingNvr rnd =
     (form_ip nvrForm \<noteq> [] \<and> form_username nvrForm \<noteq> [] \<and> form_password nvrForm \<noteq> []
      \<and> isEditingNvr \<noteq> None \<and> isEditingNvr \<noteq> Some []
      \<and> \<not> (form_username nvrForm = ''admin'' \<and> form_password nvrForm = ''12345''
             \<and> rnd 0 > toDouble 0.1))"

fun isFailedEdit :: "Operation \<Rightarrow> bool" where
  "isFailedEdit (SaveNvr nvrForm isEditingNvr now rnd gid) = editFails nvrForm isEditingNvr rnd"
| "isFailedEdit operation = False"

text \<open>
  The stores that a backup reproduces. The items of the cameras and of the NVRs read
  as arrays; the items of the users, the alerts and the faults read as arrays or as
  other truthy values; and every one of the five reads as a value that
  \<^verbatim>\<open>JSON.stringify\<close> prints as it is, one without an infinite number. A missing or
  empty item reads as the empty array.
\<close>

definition readsAsPrintedArray :: "storage \<Rightarrow> string \<Rightarrow> bool" where
  "readsAsPrintedArray st key =
     (case readItem st key of
        None \<Rightarrow> False
      | Some v \<Rightarrow> isArray v \<and> printed v = v)"

definition readsAsPrintedTruthy :: "storage \<Rightarrow> string \<Rightarrow> bool" where
  "readsAsPrintedTruthy st key =
     (case readItem st key of
        None \<Rightarrow> False
      | Some v \<Rightarrow> truthy v \<and> printed v = v)"

definition exportable :: "storage \<Rightarrow> bool" where
  "exportable st =
     (readsAsPrintedArray st KEY_CAMERAS \<and> readsAsPrintedArray st KEY_NVRS
      \<and> readsAsPrintedTruthy st KEY_USERS \<and> readsAsPrintedTruthy st KEY_ALERTS
      \<and> readsAsPrintedTruthy st KEY_FAULTS)"




text \<open>
  The store after \<^verbatim>\<open>localStorage.clear()\<close>; a store whose cameras item is the text
  \<^verbatim>\<open>null\<close>; and a store whose cameras item is the text \<^verbatim>\<open>[1e400]\<close>.
\<close>

definition freshStore :: storage where
  "freshStore = Map.empty"


definition exOverflowStore :: storage where
  "exOverflowStore =
     [KEY_CAMERAS \<mapsto> Text (JArr [JNum PosInfinity]), KEY_NVRS \<mapsto> Text (JArr [])]"

section \<open>Properties\<close>

subsection \<open>Doubles\<close>

text \<open>
  The rounded value is within half a unit in the last place of the exact one; the
  exponent search finds the binade; the literals 0.002, 0.20, 0.005, 0.5 and 0.1 of
  the source, written as the fractions they are, denote the doubles given here.
\<close>

lemma roundHalfEven_bounds: "of_int (roundHalfEven q) \<le> q + 1/2 \<and> q - 1/2 \<le> of_int (roundHalfEven q)"
  unfolding roundHalfEven_def Let_def by (auto; linarith)

lemma roundHalfEven_nonneg: "0 \<le> q \<Longrightarrow> 0 \<le> roundHalfEven q"
  unfolding roundHalfEven_def Let_def by (auto; linarith)

lemma exponentFrom_cases:
  "0 \<le> x \<Longrightarrow> power_int 2 (exponentFrom k e x) \<le> x \<or> exponentFrom k e x = e - int k"
proof (induction k arbitrary: e)
  case 0
  then show ?case by simp
next
  case (Suc k)
  from Suc.IH [OF Suc.prems, of "e - 1"] show ?case by auto
qed

lemma ulp_pos: "0 < ulp x"
  by (simp add: ulp_def)

lemma ulp_bound: "ulp x \<le> \<bar>x\<bar> / 2 ^ 52 \<or> ulp x = power_int 2 (- 1074)"
proof -
  let ?e = "exponentFrom 2045 1023 \<bar>x\<bar>"
  have split: "power_int (2::real) (?e - 52) = power_int 2 ?e / 2 ^ 52"
    by (simp add: power_int_diff)
  from exponentFrom_cases [of "\<bar>x\<bar>" 2045 1023]
  have "power_int 2 ?e \<le> \<bar>x\<bar> \<or> ?e = - 1022" by simp
  then show ?thesis
  proof
    assume "power_int 2 ?e \<le> \<bar>x\<bar>"
    then show ?thesis unfolding ulp_def split by (simp add: divide_right_mono)
  next
    assume "?e = - 1022"
    then show ?thesis unfolding ulp_def by simp
  qed
qed

lemma toDouble_upper: "0 \<le> x \<Longrightarrow> toDouble x \<le> x + ulp x / 2"
proof -
  assume "0 \<le> x"
  have "of_int (roundHalfEven (x / ulp x)) \<le> x / ulp x + 1/2"
    using roundHalfEven_bounds by blast
  then have "ulp x * of_int (roundHalfEven (x / ulp x)) \<le> ulp x * (x / ulp x + 1/2)"
    using ulp_pos [of x] by (simp add: mult_left_mono)
  also have "\<dots> = x + ulp x / 2"
    using ulp_pos [of x] by (simp add: algebra_simps)
  finally show ?thesis by (simp add: toDouble_def)
qed

lemma toDouble_nonneg: "0 \<le> x \<Longrightarrow> 0 \<le> toDouble x"
  unfolding toDouble_def using ulp_pos [of x] roundHalfEven_nonneg [of "x / ulp x"]
  by (simp add: less_imp_le)

lemma floor_toDouble_small: "0 \<le> x \<Longrightarrow> x < 1/2 \<Longrightarrow> \<lfloor>toDouble x\<rfloor> = 0"
proof -
  assume x0: "0 \<le> x" and x1: "x < 1/2"
  have "ulp x / 2 < 1/2"
  proof -
    from ulp_bound [of x] show ?thesis
    proof
      assume "ulp x \<le> \<bar>x\<bar> / 2 ^ 52"
      also have "\<dots> \<le> \<bar>x\<bar>" using x0 by (simp add: field_simps)
      finally show ?thesis using x0 x1 by simp
    next
      assume "ulp x = power_int 2 (- 1074)"
      moreover have "power_int (2::real) (- 1074) \<le> 1"
        by (simp add: power_int_minus field_simps)
      ultimately show ?thesis by simp
    qed
  qed
  with toDouble_upper [OF x0] x1 have "toDouble x < 1" by simp
  with toDouble_nonneg [OF x0] show ?thesis by (simp add: floor_eq_iff)
qed

lemma exponentFrom_eq:
  "power_int 2 e \<le> x \<Longrightarrow> x < power_int 2 (e + 1) \<Longrightarrow> e \<le> start \<Longrightarrow> start - int k \<le> e
     \<Longrightarrow> exponentFrom k start x = e"
proof (induction k arbitrary: start)
  case 0
  then show ?case by simp
next
  case (Suc k)
  show ?case
  proof (cases "power_int 2 start \<le> x")
    case True
    with Suc.prems(2) have "power_int (2::real) start < power_int 2 (e + 1)" by simp
    then have "start < e + 1"
      using power_int_increasing [of "e + 1" start "2::real"] by (cases "start < e + 1") auto
    with Suc.prems(3) True show ?thesis by simp
  next
    case False
    with Suc.prems(1) have "e \<noteq> start" by auto
    with Suc.prems(3,4) have "e \<le> start - 1" "start - 1 - int k \<le> e" by simp_all
    from Suc.IH [OF Suc.prems(1,2) this] False show ?thesis by simp
  qed
qed

lemma toDouble_in_binade:
  "power_int 2 e \<le> \<bar>x\<bar> \<Longrightarrow> \<bar>x\<bar> < power_int 2 (e + 1) \<Longrightarrow> - 1022 \<le> e \<Longrightarrow> e \<le> 1023
     \<Longrightarrow> toDouble x = power_int 2 (e - 52) * of_int (roundHalfEven (x / power_int 2 (e - 52)))"
  using exponentFrom_eq [of e "\<bar>x\<bar>" 1023 2045] by (simp add: toDouble_def ulp_def)

lemma literal_0_002: "toDouble (1 / 500) = 1152921504606847 / 2 ^ 59"
  using toDouble_in_binade [of "- 9" "1 / 500"]
  by (simp add: power_int_minus roundHalfEven_def Let_def)

lemma literal_0_20: "toDouble (1 / 5) = 3602879701896397 / 2 ^ 54"
  using toDouble_in_binade [of "- 3" "1 / 5"]
  by (simp add: power_int_minus roundHalfEven_def Let_def)

lemma literal_0_005: "toDouble (1 / 200) = 5764607523034235 / 2 ^ 60"
  using toDouble_in_binade [of "- 8" "1 / 200"]
  by (simp add: power_int_minus roundHalfEven_def Let_def)

lemma literal_0_5: "toDouble (1 / 2) = 1 / 2"
  using toDouble_in_binade [of "- 1" "1 / 2"]
  by (simp add: power_int_minus roundHalfEven_def Let_def)

lemma literal_0_1: "toDouble (1 / 10) = 3602879701896397 / 2 ^ 55"
  using toDouble_in_binade [of "- 4" "1 / 10"]
  by (simp add: power_int_minus roundHalfEven_def Let_def)

lemmas double_simps = literal_0_002 literal_0_20 literal_0_005 literal_0_5 literal_0_1
  floor_toDouble_small

text \<open>The defining equations of the examples, of the tick and of the storage keys.\<close>

lemmas ex_defs = exState_def exNvr_def exCamera_def exFault_def exAlert_def exGid_def
  exGidFrom_def constDraws_def listedDraws_def exForm_def

lemmas tick_defs = tick_def tickChanges_def tickResult_def nvrFailureTarget_def uniq_def at_index_def
  rollCamera_def repairCamera_def failCamera_def repairEvent_def failureEvent_def
  nvrFailureEvent_def setNvrStatus_def syncFaultsFrom_def faultsOfChange_def
  faultsOfNvrFailure_def openFaultUnlessOpen_def hasOpenFault_def newFault_def closeFault_def
  syncAlerts_def alertOfFailure_def alertOfNvrFailure_def orDefault_def double_simps

lemmas key_defs = KEY_CAMERAS_def KEY_NVRS_def KEY_USERS_def KEY_ALERTS_def KEY_FAULTS_def
  KEY_INIT_def

subsection \<open>Manual reconnect\<close>

text \<open>
  C9. A manual reconnect of camera \<open>C\<close> keeps exactly the alerts whose camera id is not
  \<open>C\<close>, in their order: no alert of \<open>C\<close> remains, every alert of another source is
  still there, the system alerts are the same ones (\<open>C\<close> being a camera, not the
  sentinel), and the alerts afterwards are a subsequence of the alerts before, so
  that none was added.
\<close>

theorem reconnect_purges_alerts:
  "alerts (handleReconnect C now s) = filter (\<lambda>a. al_cameraId a \<noteq> C) (alerts s)
   \<and> (\<forall>a \<in> set (alerts (handleReconnect C now s)). al_cameraId a \<noteq> C)
   \<and> (\<forall>a \<in> set (alerts s). al_cameraId a \<noteq> C \<longrightarrow> a \<in> set (alerts (handleReconnect C now s)))
   \<and> (C \<noteq> SYSTEM \<longrightarrow>
        filter (\<lambda>a. al_cameraId a = SYSTEM) (alerts (handleReconnect C now s))
          = filter (\<lambda>a. al_cameraId a = SYSTEM) (alerts s))
   \<and> subseq (alerts (handleReconnect C now s)) (alerts s)"
  by (auto simp: handleReconnect_def intro!: filter_cong)

theorem reconnect_purges_alerts_witness:
  "''cam-0004'' \<noteq> SYSTEM
   \<and> map al_id (alerts exState) = [''a1'', ''a2'', ''a3'', ''a4'']
   \<and> map al_cameraId (alerts exState) = [''cam-0004'', ''cam-0001'', SYSTEM, ''cam-0004'']
   \<and> map al_id (alerts (handleReconnect ''cam-0004'' 2000 exState)) = [''a2'', ''a3'']
   \<and> subseq (alerts (handleReconnect ''cam-0004'' 2000 exState)) (alerts exState)"
  using reconnect_purges_alerts [of "''cam-0004''" 2000 exState]
  by (simp add: exState_def exAlert_def SYSTEM_def)

subsection \<open>Closing a fault\<close>




text \<open>
  The fault collection after a tick that reaches the per-camera roll and pushes a
  change is \<open>syncFaults\<close> of the changes pushed.
\<close>

lemma tick_faults_syncFaults:
  "nvrFailureTarget rnd (cameras s) = None \<Longrightarrow> tickChanges now rnd gid s \<noteq> [] \<Longrightarrow>
     faults (tick now rnd gid s)
       = syncFaults now gid (cameras s) (tickChanges now rnd gid s) (faults s)"
  by (auto simp add: tick_def tickChanges_def tickResult_def syncFaults_def Let_def
        split: prod.splits if_splits)



subsection \<open>Ticks without transitions\<close>

lemma rollCamera_repair_has_change:
  "rollCamera now rnd nl i cam = (c', None, r, i') \<Longrightarrow> r = None \<and> c' = cam"
  by (auto simp: rollCamera_def Let_def split: if_splits)

lemma rollCameras_no_changes:
  "rollCameras now rnd nl i cams = (cs, [], reps) \<Longrightarrow> reps = [] \<and> cs = cams"
proof (induction cams arbitrary: i cs reps)
  case Nil
  then show ?case by simp
next
  case (Cons cam rest)
  then show ?case
    by (auto split: prod.splits option.splits dest: rollCamera_repair_has_change)
qed

text \<open>
  C7. If the array of changes of a tick is empty when the camera updater returns (no
  NVR failure, no repair, no camera failure), the tick leaves the cameras, the NVRs,
  the fault records and the alerts as they were; indeed the whole state is the same.
  The updater returns \<^verbatim>\<open>prevCameras\<close> itself in this case.
\<close>

theorem noop_tick_unchanged:
  "tickChanges now rnd gid s = [] \<Longrightarrow>
     cameras (tick now rnd gid s) = cameras s \<and> nvrs (tick now rnd gid s) = nvrs s
     \<and> faults (tick now rnd gid s) = faults s \<and> alerts (tick now rnd gid s) = alerts s
     \<and> tick now rnd gid s = s"
  by (auto simp: tickChanges_def tick_def tickResult_def Let_def
           split: option.splits prod.splits if_splits dest: rollCameras_no_changes)

theorem noop_tick_unchanged_witness:
  "tickChanges 2000 (constDraws 0.9) exGid exState = []
   \<and> tick 2000 (constDraws 0.9) exGid exState = exState"
proof -
  have h: "tickChanges 2000 (constDraws 0.9) exGid exState = []"
    by (simp add: tickChanges_def tickResult_def nvrFailureTarget_def constDraws_def
          exState_def exCamera_def rollCamera_def double_simps)
  show ?thesis using h noop_tick_unchanged [OF h] by simp
qed

subsection \<open>Deleting an NVR\<close>

text \<open>
  C1, as stated, fails at the example state: cam-0004 is the camera of NVR-02, and
  the fault record that references it is still in the collection after NVR-02 has
  been deleted.
\<close>

theorem delete_nvr_keeps_faults_counterexample:
  "map nvr_id (nvrs exState) = [''NVR-01'', ''NVR-02'']
   \<and> cameraIdsOfNvr ''NVR-02'' (cameras exState) = [''cam-0004'']
   \<and> map flt_cameraId (faults exState) = [''cam-0004'']
   \<and> map flt_cameraId (faults (executeDeleteNvr (Some ''NVR-02'') 2000 ''a5'' exState)) = [''cam-0004'']"
  by (simp add: exState_def exNvr_def exCamera_def exFault_def cameraIdsOfNvr_def
        executeDeleteNvr_def)

text \<open>
  C1, amended. Deleting the NVR with the non-empty id \<open>N\<close> keeps exactly the cameras
  whose \<open>nvrId\<close> is not \<open>N\<close>, removes the ids of the cameras of \<open>N\<close> from the live
  view (and nothing else), removes the NVR, and leaves the fault collection as it
  was.
\<close>

theorem delete_nvr_cascade:
  "N \<noteq> [] \<Longrightarrow>
     cameras (executeDeleteNvr (Some N) now newId s) = filter (\<lambda>c. cam_nvrId c \<noteq> N) (cameras s)
     \<and> (\<forall>c \<in> set (cameras (executeDeleteNvr (Some N) now newId s)). cam_nvrId c \<noteq> N)
     \<and> (\<forall>c \<in> set (cameras s). cam_nvrId c \<noteq> N \<longrightarrow>
            c \<in> set (cameras (executeDeleteNvr (Some N) now newId s)))
     \<and> liveCameraIds (executeDeleteNvr (Some N) now newId s)
          = filter (\<lambda>i. i \<notin> set (cameraIdsOfNvr N (cameras s))) (liveCameraIds s)
     \<and> (\<forall>c \<in> set (cameras s). cam_nvrId c = N \<longrightarrow>
            cam_id c \<notin> set (liveCameraIds (executeDeleteNvr (Some N) now newId s)))
     \<and> nvrs (executeDeleteNvr (Some N) now newId s) = filter (\<lambda>n. nvr_id n \<noteq> N) (nvrs s)
     \<and> faults (executeDeleteNvr (Some N) now newId s) = faults s"
  by (auto simp: executeDeleteNvr_def Let_def cameraIdsOfNvr_def)

theorem delete_nvr_cascade_witness:
  "''NVR-02'' \<noteq> []
   \<and> map cam_id (cameras exState) = [''cam-0001'', ''cam-0002'', ''cam-0003'', ''cam-0004'']
   \<and> map cam_nvrId (cameras exState) = [''NVR-01'', ''NVR-01'', ''NVR-01'', ''NVR-02'']
   \<and> liveCameraIds exState = [''cam-0001'', ''cam-0004'']
   \<and> map cam_id (cameras (executeDeleteNvr (Some ''NVR-02'') 2000 ''a5'' exState))
        = [''cam-0001'', ''cam-0002'', ''cam-0003'']
   \<and> liveCameraIds (executeDeleteNvr (Some ''NVR-02'') 2000 ''a5'' exState) = [''cam-0001'']
   \<and> map nvr_id (nvrs (executeDeleteNvr (Some ''NVR-02'') 2000 ''a5'' exState)) = [''NVR-01'']
   \<and> faults (executeDeleteNvr (Some ''NVR-02'') 2000 ''a5'' exState) = faults exState"
proof -
  have h: "''NVR-02'' \<noteq> []" by simp
  show ?thesis
    using delete_nvr_cascade [OF h, of 2000 "''a5''" exState]
    by (simp add: exState_def exNvr_def exCamera_def cameraIdsOfNvr_def)
qed

subsection \<open>Degraded frame analysis\<close>

text \<open>
  C4, as stated, fails: the result that \<^verbatim>\<open>analyzeFrame\<close> returns without an API key
  has one anomaly, so the handler prepends an alert (here \<open>a5\<close>).
\<close>

theorem degraded_analysis_counterexample:
  "map al_id (alerts exState) = [''a1'', ''a2'', ''a3'', ''a4'']
   \<and> map al_id (alerts (handleAnalysisResult ''cam-0001''
        (analyzeFrame None ''2026-11-03T00:00:00.000Z'' (Threw []))
        ''frame'' 2000 ''a5'' exState))
      = [''a5'', ''a1'', ''a2'', ''a3'', ''a4'']"
  by (simp add: exState_def exAlert_def handleAnalysisResult_def analyzeFrame_def
        fallbackResult_def analysisAlert_def Let_def)

text \<open>
  C4, amended. Without an API key (none, or the empty string) \<^verbatim>\<open>analyzeFrame\<close>
  returns threat level LOW, no detected objects, a non-empty summary and the single
  anomaly "Configuration Error"; the handler applied to that result prepends exactly
  one alert, of severity WARNING, with the message "LOW: Configuration Error".
\<close>

theorem degraded_analysis_raises_alert:
  "apiKey = None \<or> apiKey = Some [] \<Longrightarrow>
     ar_threatLevel (analyzeFrame apiKey nowIso outcome) = LOW
     \<and> ar_detectedObjects (analyzeFrame apiKey nowIso outcome) = []
     \<and> ar_summary (analyzeFrame apiKey nowIso outcome) \<noteq> []
     \<and> ar_anomalies (analyzeFrame apiKey nowIso outcome) = [''Configuration Error'']
     \<and> alerts (handleAnalysisResult cameraId (analyzeFrame apiKey nowIso outcome) frame now newId s)
         = analysisAlert cameraId (analyzeFrame apiKey nowIso outcome) frame now newId (cameras s)
             # alerts s
     \<and> al_severity (analysisAlert cameraId (analyzeFrame apiKey nowIso outcome) frame now newId
           (cameras s)) = Sev_WARNING
     \<and> al_message (analysisAlert cameraId (analyzeFrame apiKey nowIso outcome) frame now newId
           (cameras s)) = ''LOW: Configuration Error''"
  by (auto simp: analyzeFrame_def fallbackResult_def handleAnalysisResult_def Let_def
        analysisAlert_def orDefault_def)

theorem degraded_analysis_raises_alert_witness:
  "ar_threatLevel (analyzeFrame None ''2026-11-03T00:00:00.000Z'' (Threw [])) = LOW
   \<and> ar_anomalies (analyzeFrame None ''2026-11-03T00:00:00.000Z'' (Threw []))
        = [''Configuration Error'']
   \<and> map al_severity (alerts (handleAnalysisResult ''cam-0001''
        (analyzeFrame None ''2026-11-03T00:00:00.000Z'' (Threw []))
        ''frame'' 2000 ''a5'' exState))
      = [Sev_WARNING, Sev_WARNING, Sev_WARNING, Sev_WARNING, Sev_WARNING]
   \<and> al_message (hd (alerts (handleAnalysisResult ''cam-0001''
        (analyzeFrame None ''2026-11-03T00:00:00.000Z'' (Threw []))
        ''frame'' 2000 ''a5'' exState))) = ''LOW: Configuration Error''"
proof -
  have h: "(None :: string option) = None \<or> (None :: string option) = Some []" by simp
  show ?thesis
    using degraded_analysis_raises_alert
      [OF h, of "''2026-11-03T00:00:00.000Z''" "Threw []" "''cam-0001''" "''frame''" 2000 "''a5''" exState]
    by (simp add: exState_def exAlert_def)
qed

subsection \<open>NVR failure ticks\<close>

text \<open>
  What a tick with an NVR failure does, whatever the other draws are: the cameras of
  the target go offline, the target's status becomes OFFLINE, and nothing else
  changes.
\<close>

lemma nvr_failure_tick_effect:
  "nvrFailureTarget rnd (cameras s) = Some N \<Longrightarrow>
     tick now rnd gid s =
       s\<lparr>cameras := map (\<lambda>c. if cam_nvrId c = N then failCamera now c else c) (cameras s),
         nvrs := setNvrStatus N OFFLINE (nvrs s)\<rparr>
     \<and> tickChanges now rnd gid s = [nvrFailureEvent N]"
  by (simp add: tick_def tickChanges_def tickResult_def)

text \<open>
  C5, at a failing input. Every draw is 0.001, so the NVR roll succeeds and picks
  NVR-01. The change list of the tick is the NVR failure alone. cam-0004 belongs to
  NVR-02 and is offline; its own roll with these draws would repair it, but after
  the tick it is as it was before: the updater has returned before the per-camera
  roll.
\<close>

theorem nvr_failure_tick_skips_rolls:
  "nvrFailureTarget (constDraws 0.001) (cameras exState) = Some ''NVR-01''
   \<and> map ch_type (tickChanges 2000 (constDraws 0.001) exGid exState) = [NVR_FAILURE]
   \<and> cam_nvrId (cameras exState ! 3) = ''NVR-02''
   \<and> \<not> cam_isOnline (cameras exState ! 3)
   \<and> fst (rollCamera 2000 (constDraws 0.001) (nvrs exState) 2 (cameras exState ! 3))
        = repairCamera 2000 (cameras exState ! 3)
   \<and> cameras (tick 2000 (constDraws 0.001) exGid exState) ! 3 = cameras exState ! 3"
  by (simp add: ex_defs tick_defs Let_def)

text \<open>
  C6, at a failing input. The same tick: the three cameras of NVR-01 were online and
  are offline afterwards, and NVR-01 is OFFLINE, but the fault collection and the
  alert collection are what they were: no fault record was opened and no alert was
  emitted.
\<close>

theorem nvr_failure_tick_no_faults_no_alert:
  "nvrFailureTarget (constDraws 0.001) (cameras exState) = Some ''NVR-01''
   \<and> cameraIdsOfNvr ''NVR-01'' (cameras exState) = [''cam-0001'', ''cam-0002'', ''cam-0003'']
   \<and> map cam_isOnline (cameras exState) = [True, True, True, False]
   \<and> map cam_isOnline (cameras (tick 2000 (constDraws 0.001) exGid exState))
        = [False, False, False, False]
   \<and> map nvr_status (nvrs (tick 2000 (constDraws 0.001) exGid exState)) = [OFFLINE, ONLINE]
   \<and> faults (tick 2000 (constDraws 0.001) exGid exState) = faults exState
   \<and> alerts (tick 2000 (constDraws 0.001) exGid exState) = alerts exState"
  by (simp add: ex_defs tick_defs cameraIdsOfNvr_def)

subsection \<open>Recording implies online\<close>

text \<open>
  Every operation other than a failed edit keeps the invariant that a recording
  camera is online; a failed edit keeps it only if no camera of the edited NVR was
  recording.
\<close>

lemma recording_map:
  "(\<And>c. (cam_isRecording c \<longrightarrow> cam_isOnline c) \<Longrightarrow> cam_isRecording (f c) \<longrightarrow> cam_isOnline (f c))
     \<Longrightarrow> recordingImpliesOnline cams \<Longrightarrow> recordingImpliesOnline (map f cams)"
  by (induction cams) (simp_all add: recordingImpliesOnline_def)

lemma rollCamera_recording:
  "cam_isRecording cam \<longrightarrow> cam_isOnline cam \<Longrightarrow>
     cam_isRecording (fst (rollCamera now rnd nl i cam))
       \<longrightarrow> cam_isOnline (fst (rollCamera now rnd nl i cam))"
  by (auto simp add: rollCamera_def Let_def repairCamera_def failCamera_def)

lemma rollCameras_recording:
  "recordingImpliesOnline cams \<Longrightarrow>
     recordingImpliesOnline (fst (rollCameras now rnd nl i cams))"
proof (induction cams arbitrary: i)
  case Nil
  then show ?case by (simp add: recordingImpliesOnline_def)
next
  case (Cons cam rest)
  obtain cam' ch rp i' where r: "rollCamera now rnd nl i cam = (cam', ch, rp, i')"
    by (cases "rollCamera now rnd nl i cam") auto
  obtain cs chs rps where rs: "rollCameras now rnd nl i' rest = (cs, chs, rps)"
    by (cases "rollCameras now rnd nl i' rest") auto
  from Cons.prems have "cam_isRecording cam \<longrightarrow> cam_isOnline cam"
    and rest: "recordingImpliesOnline rest"
    by (simp_all add: recordingImpliesOnline_def)
  then have "cam_isRecording cam' \<longrightarrow> cam_isOnline cam'"
    using rollCamera_recording [of cam now rnd nl i] r by simp
  moreover have "recordingImpliesOnline cs"
    using Cons.IH [OF rest, of i'] rs by simp
  ultimately show ?case
    using r rs by (simp add: recordingImpliesOnline_def)
qed

lemma tick_recording:
  "recordingImpliesOnline (cameras s) \<Longrightarrow> recordingImpliesOnline (cameras (tick now rnd gid s))"
proof -
  assume inv: "recordingImpliesOnline (cameras s)"
  show ?thesis
  proof (cases "nvrFailureTarget rnd (cameras s)")
    case (Some N)
    with inv show ?thesis
      by (simp add: tick_def tickResult_def recording_map failCamera_def)
  next
    case None
    define i where "i = (if rnd 0 < toDouble 0.002 then 2 else 1 :: nat)"
    obtain cs chs rps where rs: "rollCameras now rnd (nvrs s) i (cameras s) = (cs, chs, rps)"
      by (cases "rollCameras now rnd (nvrs s) i (cameras s)") auto
    have "recordingImpliesOnline cs"
      using rollCameras_recording [OF inv, of now rnd "nvrs s" i] rs by simp
    with inv None rs show ?thesis
      unfolding tick_def tickResult_def Let_def i_def [symmetric]
      by (simp split: prod.splits)
  qed
qed

lemma recording_filter:
  "recordingImpliesOnline cams \<Longrightarrow> recordingImpliesOnline (filter P cams)"
  by (induction cams) (simp_all add: recordingImpliesOnline_def)

lemma reconnect_recording:
  "recordingImpliesOnline (cameras s) \<Longrightarrow>
     recordingImpliesOnline (cameras (handleReconnect C now s))"
  by (simp add: handleReconnect_def recording_map reconnectCamera_def)

lemma delete_recording:
  "recordingImpliesOnline (cameras s) \<Longrightarrow>
     recordingImpliesOnline (cameras (executeDeleteNvr d now newId s))"
  by (simp add: executeDeleteNvr_def Let_def recording_filter split: option.splits)

lemma newNvrCamera_recording:
  "cam_isRecording (newNvrCamera nvrForm nid ok now gid i)
     = cam_isOnline (newNvrCamera nvrForm nid ok now gid i)"
  by (simp add: newNvrCamera_def)

lemma newNvrCameras_recording:
  "recordingImpliesOnline (map (newNvrCamera nvrForm nid ok now gid) ks)"
  by (induction ks) (simp_all add: recordingImpliesOnline_def newNvrCamera_recording)

lemma add_recording:
  "recordingImpliesOnline (cameras s) \<Longrightarrow>
     recordingImpliesOnline (cameras (addNewNvr nvrForm ok st now rnd gid s))"
proof -
  assume inv: "recordingImpliesOnline (cameras s)"
  have app: "\<And>xs ys. recordingImpliesOnline xs \<Longrightarrow> recordingImpliesOnline ys
               \<Longrightarrow> recordingImpliesOnline (xs @ ys)"
    by (simp add: recordingImpliesOnline_def)
  show ?thesis
    unfolding addNewNvr_def Let_def
    by (simp del: upt_Suc add: app [OF inv newNvrCameras_recording])
qed

lemma edit_success_recording:
  "recordingImpliesOnline (cameras s) \<Longrightarrow>
     recordingImpliesOnline (cameras (updateExistingNvr nvrForm N True st now gid s))"
  by (simp add: updateExistingNvr_def recording_map)

lemma edit_failure_camera:
  "(cam_isRecording (if cam_nvrId c = N then c\<lparr>cam_isOnline := False\<rparr> else c)
      \<longrightarrow> cam_isOnline (if cam_nvrId c = N then c\<lparr>cam_isOnline := False\<rparr> else c))
   \<longleftrightarrow> (cam_isRecording c \<longrightarrow> cam_isOnline c \<and> cam_nvrId c \<noteq> N)"
  by simp

lemma edit_failure_recording:
  "recordingImpliesOnline (cameras (updateExistingNvr nvrForm N False st now gid s)) \<longleftrightarrow>
     list_all (\<lambda>c. cam_isRecording c \<longrightarrow> cam_isOnline c \<and> cam_nvrId c \<noteq> N) (cameras s)"
proof -
  have "recordingImpliesOnline
          (map (\<lambda>c. if cam_nvrId c = N then c\<lparr>cam_isOnline := False\<rparr> else c) cams)
        \<longleftrightarrow> list_all (\<lambda>c. cam_isRecording c \<longrightarrow> cam_isOnline c \<and> cam_nvrId c \<noteq> N) cams"
    for cams
    by (induction cams) (simp_all add: recordingImpliesOnline_def)
  then show ?thesis
    by (simp add: updateExistingNvr_def)
qed

lemma saveNvr_recording:
  "recordingImpliesOnline (cameras s) \<Longrightarrow> \<not> editFails nvrForm e rnd \<Longrightarrow>
     recordingImpliesOnline (cameras (handleSaveNvr nvrForm e now rnd gid s))"
  by (auto simp: handleSaveNvr_def editFails_def Let_def add_recording edit_success_recording
        split: option.splits)

lemma operation_recording:
  "recordingImpliesOnline (cameras s) \<Longrightarrow> \<not> isFailedEdit operation \<Longrightarrow>
     recordingImpliesOnline (cameras (applyOperation operation s))"
  by (cases operation)
     (simp_all add: tick_recording reconnect_recording saveNvr_recording delete_recording)

lemma run_recording:
  "recordingImpliesOnline (cameras s) \<Longrightarrow> list_all (\<lambda>operation. \<not> isFailedEdit operation) ops \<Longrightarrow>
     recordingImpliesOnline (cameras (run ops s))"
  unfolding run_def
  by (induction ops arbitrary: s) (simp_all add: operation_recording)

subsection \<open>Editing an NVR\<close>

text \<open>
  C3, at a failing input. In the example state recording implies online for every
  camera. After an edit of NVR-01 with a wrong password the three cameras of NVR-01
  are offline and still recording.
\<close>

theorem edit_failure_recording_offline:
  "map cam_isOnline (cameras exState) = [True, True, True, False]
   \<and> map cam_isRecording (cameras exState) = [True, True, True, False]
   \<and> map cam_isOnline
        (cameras (handleSaveNvr (exForm ''wrong'') (Some ''NVR-01'') 3000 (constDraws 0.5) exGid exState))
      = [False, False, False, False]
   \<and> map cam_isRecording
        (cameras (handleSaveNvr (exForm ''wrong'') (Some ''NVR-01'') 3000 (constDraws 0.5) exGid exState))
      = [True, True, True, False]"
  by (simp add: ex_defs handleSaveNvr_def updateExistingNvr_def Let_def)

text \<open>
  An edit leaves the fault collection alone, whether it switches the cameras of the
  NVR online or offline, and the FAILURE change of a tick appends a record without
  looking for an open one.
\<close>

lemma edit_keeps_faults:
  "faults (updateExistingNvr nvrForm N ok st now gid s) = faults s"
  by (simp add: updateExistingNvr_def)

lemma failure_appends_fault:
  "faultsOfChange now gid (failureEvent cam) (k, fs) = (Suc k, fs @ [newFault (gid k) cam now])"
  by (simp add: faultsOfChange_def failureEvent_def)

text \<open>
  C2, at a failing input. cam-0001 has no open fault in the example state. After the
  trace (cam-0001 fails in a tick, NVR-01 is edited successfully, cam-0001 fails in
  a tick again) it has two.
\<close>

theorem second_open_fault_after_edit:
  "openFaultsOf ''cam-0001'' (faults exState) = []
   \<and> map flt_id (openFaultsOf ''cam-0001'' (faults (run exTrace exState))) = [''id0'', ''id20'']"
  by (simp add: run_def exTrace_def ex_defs tick_defs openFaultsOf_def handleSaveNvr_def
        updateExistingNvr_def Let_def showNat.simps digitChar_def)

subsection \<open>Backup and restore\<close>

lemma printed_idem: "printed (printed v) = printed v"
  by (induction v rule: printed.induct) auto







text \<open>
  The restriction is the exact one: a store that a backup reproduces on some target
  is of this kind. The stores that the write operations produce are of this kind.
  A store holding a number beyond the doubles is not: the import succeeds and the
  number comes back as \<^verbatim>\<open>null\<close>.
\<close>

lemma printed_truthy_fixed:
  "printed (if truthy (printed u) then printed u else JArr []) = u \<Longrightarrow> truthy u \<and> printed u = u"
  by (cases "truthy (printed u)") (auto simp: printed_idem)

lemma roundtrip_only_if_exportable:
  assumes b: "createBackup now st = Some backup"
    and ok: "fst (restoreBackup backup target)"
    and same: "getData (snd (restoreBackup backup target)) = getData st"
  shows "exportable st"
proof -
  from b obtain c n u a f where r: "readItem st KEY_CAMERAS = Some c"
    "readItem st KEY_NVRS = Some n" "readItem st KEY_USERS = Some u"
    "readItem st KEY_ALERTS = Some a" "readItem st KEY_FAULTS = Some f"
    by (auto simp: createBackup_def split: option.splits)
  let ?data = "JObj [(''cameras'', printed c), (''nvrs'', printed n), (''users'', printed u),
                     (''alerts'', printed a), (''faults'', printed f),
                     (''timestamp'', JNum (Finite (of_int now))), (''version'', JStr ''1.0'')]"
  have bk: "backup = Text ?data"
    using b by (simp add: createBackup_def r stringify_def)
  from ok obtain cs ns where cs: "printed c = JArr cs" and ns: "printed n = JArr ns"
    unfolding bk
    by (auto simp: restoreBackup_def arrayProperty_def split: option.splits if_splits json.splits)
  have restore: "snd (restoreBackup backup target) =
      target(KEY_CAMERAS \<mapsto> Text (printed c), KEY_NVRS \<mapsto> Text (printed n),
             KEY_USERS \<mapsto> Text (printed (if truthy (printed u) then printed u else JArr [])),
             KEY_ALERTS \<mapsto> Text (printed (if truthy (printed a) then printed a else JArr [])),
             KEY_FAULTS \<mapsto> Text (printed (if truthy (printed f) then printed f else JArr [])),
             KEY_INIT \<mapsto> Text (JBool True))"
    unfolding bk using cs ns printed_idem [of c] printed_idem [of n]
    by (simp add: restoreBackup_def arrayProperty_def orEmptyArray_def stringify_def)
  have before: "getData st = Some \<lparr>snap_cameras = c, snap_nvrs = n, snap_users = u,
                snap_alerts = a, snap_faults = f\<rparr>"
    by (simp add: getData_def r)
  have eqs: "printed c = c" "printed n = n"
    "printed (if truthy (printed u) then printed u else JArr []) = u"
    "printed (if truthy (printed a) then printed a else JArr []) = a"
    "printed (if truthy (printed f) then printed f else JArr []) = f"
    using same unfolding restore before
    by (simp_all add: getData_def readItem_def key_defs)
  have "isArray c" "isArray n"
    using cs ns eqs(1,2) by simp_all
  then show ?thesis
    using eqs printed_truthy_fixed [of u] printed_truthy_fixed [of a] printed_truthy_fixed [of f]
    by (simp add: exportable_def readsAsPrintedArray_def readsAsPrintedTruthy_def r)
qed

lemma saved_store_exportable:
  "exportable (saveFaults fs (saveAlerts als (saveUsers us (saveNvrs ns (saveCameras cams st)))))"
proof -
  have p: "\<And>xs. printed (JArr (map printed xs)) = JArr (map printed xs)"
    using printed_idem by simp
  show ?thesis
    using p
    by (simp add: exportable_def readsAsPrintedArray_def readsAsPrintedTruthy_def readItem_def
          saveCameras_def saveNvrs_def saveUsers_def saveAlerts_def saveFaults_def
          stringify_def key_defs)
qed

lemma backup_overflow_changes_records:
  "createBackup 2000 exOverflowStore =
        Some (Text (JObj [(''cameras'', JArr [JNull]), (''nvrs'', JArr []), (''users'', JArr []),
                          (''alerts'', JArr []), (''faults'', JArr []),
                          (''timestamp'', JNum (Finite 2000)), (''version'', JStr ''1.0'')]))
   \<and> fst (restoreBackup
             (Text (JObj [(''cameras'', JArr [JNull]), (''nvrs'', JArr []), (''users'', JArr []),
                          (''alerts'', JArr []), (''faults'', JArr []),
                          (''timestamp'', JNum (Finite 2000)), (''version'', JStr ''1.0'')]))
             freshStore)
   \<and> map_option snap_cameras (getData exOverflowStore) = Some (JArr [JNum PosInfinity])
   \<and> map_option snap_cameras
        (getData (snd (restoreBackup
             (Text (JObj [(''cameras'', JArr [JNull]), (''nvrs'', JArr []), (''users'', JArr []),
                          (''alerts'', JArr []), (''faults'', JArr []),
                          (''timestamp'', JNum (Finite 2000)), (''version'', JStr ''1.0'')]))
             freshStore)))
      = Some (JArr [JNull])"
  by (simp add: exOverflowStore_def createBackup_def getData_def readItem_def key_defs
        stringify_def restoreBackup_def arrayProperty_def orEmptyArray_def freshStore_def)

end
